theory Spec2Isabelle
  imports Complex_Main "HOL-Library.Word"
begin

unbundle bit_operations_syntax

section \<open>Bytes, strings and errors\<close>

text \<open>
  A Go \<open>[]byte\<close> is a list of 8-bit words; a Go \<open>string\<close> that carries data is the
  list of its bytes. Constant texts of the source (error messages, the direction names
  \<open>"send"\<close> and \<open>"recive"\<close>) stay HOL strings.
\<close>

type_synonym byte = "8 word"
type_synonym bytes = "byte list"

definition go_bytes :: "string \<Rightarrow> bytes" where
  "go_bytes s = map of_char s"

text \<open>
  The error values of \<open>webtty.go\<close>. \<open>ErrSlaveClosed\<close> and \<open>ErrMasterClosed\<close> are the two
  package-level sentinels that \<open>Run\<close> returns; \<open>New\<close> is \<open>errors.New\<close>, \<open>Wrapf\<close> is
  \<open>errors.Wrapf\<close> (the wrapped cause first), \<open>Errorf_unknown_message_type\<close> is the
  \<open>errors.Errorf\<close> of the \<open>default\<close> branch with its \<open>%c\<close> argument, and \<open>Foreign\<close> stands
  for an error made outside the package (by a connection or by the JSON decoder).
\<close>

datatype error =
    ErrSlaveClosed
  | ErrMasterClosed
  | New string
  | Wrapf error string
  | Errorf_unknown_message_type byte
  | Foreign nat

section \<open>The session\<close>

text \<open>
  The fields of \<open>type WebTTY struct\<close>, without the two connection handles and the write
  mutex: what the connections answer is given by \<open>conns\<close> below, and each handler is
  modelled as one sequential run.
\<close>

record WebTTY =
  windowTitle :: bytes
  permitWrite :: bool
  columns :: int
  rows :: int
  reconnect :: int
  masterPrefs :: "bytes option"
  bufferSize :: int
  auditBuffer :: bytes
  auditUser :: string
  waitForAutocomplete :: bool

record argResizeTerminal =
  Columns :: rat
  Rows :: rat

text \<open>
  What \<open>webtty.go\<close> uses and does not declare. The message-type constants \<open>Input\<close>,
  \<open>Ping\<close>, \<open>ResizeTerminal\<close> (read from the master) and \<open>Output\<close>, \<open>Pong\<close> (written to it)
  are declared in another file of the package, so they are parameters here; Go rejects
  a \<open>switch\<close> with two equal constant cases, which is the \<open>codes_distinct\<close> condition.
  \<open>json_Unmarshal\<close> is \<open>json.Unmarshal\<close> into a fresh \<open>argResizeTerminal\<close>: an error, or
  the decoded struct. A finite \<open>float64\<close> is a rational number; \<open>float64_out_of_range\<close> is
  what the platform's conversion \<open>int(x)\<close> yields when the truncated value does not fit
  a 64-bit \<open>int\<close> (the language leaves that case to the implementation).
\<close>

record env =
  Input :: byte
  Ping :: byte
  ResizeTerminal :: byte
  Output :: byte
  Pong :: byte
  json_Unmarshal :: "bytes \<Rightarrow> error + argResizeTerminal"
  float64_out_of_range :: "rat \<Rightarrow> int"

definition codes_distinct :: "env \<Rightarrow> bool" where
  "codes_distinct c = distinct [Input c, Ping c, ResizeTerminal c]"

text \<open>
  The answers of the two connections during one handler run: the error (or \<open>nil\<close>) that
  \<open>masterConn.Write\<close> and \<open>slave.Write\<close> return for the bytes written. A handler makes at
  most one write to each.
\<close>

record conns =
  masterConn_Write :: "bytes \<Rightarrow> error option"
  slave_Write :: "bytes \<Rightarrow> error option"

text \<open>
  Everything a handler does to the outside, in order. The log calls are kept apart by
  level: \<open>LogInfo\<close> is the audit record of line 276-279 (field \<open>user\<close>, message
  \<open>"msg=" + output\<close>), the \<open>debug_line\<close>s are the four \<open>Debug\<close> calls. The \<open>time\<close> field is
  the wall clock and is left out.
\<close>

datatype debug_line =
    DebugSend string bytes
  | DebugRecive string bytes
  | DebugLeadingCR
  | DebugByte byte

datatype event =
    MasterWrite bytes
  | SlaveWrite bytes
  | SlaveResizeTerminal int int
  | LogInfo string bytes
  | LogDebug debug_line

type_synonym 'a outcome = "'a \<times> WebTTY \<times> event list"

definition err_of :: "'a outcome \<Rightarrow> 'a" where
  "err_of r = fst r"

definition state_of :: "'a outcome \<Rightarrow> WebTTY" where
  "state_of r = fst (snd r)"

definition events_of :: "'a outcome \<Rightarrow> event list" where
  "events_of r = snd (snd r)"

fun master_writes :: "event list \<Rightarrow> bytes list" where
  "master_writes [] = []"
| "master_writes (MasterWrite p # es) = p # master_writes es"
| "master_writes (_ # es) = master_writes es"

fun slave_writes :: "event list \<Rightarrow> bytes list" where
  "slave_writes [] = []"
| "slave_writes (SlaveWrite p # es) = p # slave_writes es"
| "slave_writes (_ # es) = slave_writes es"

fun resizes :: "event list \<Rightarrow> (int \<times> int) list" where
  "resizes [] = []"
| "resizes (SlaveResizeTerminal c r # es) = (c, r) # resizes es"
| "resizes (_ # es) = resizes es"

fun audit_records :: "event list \<Rightarrow> (string \<times> bytes) list" where
  "audit_records [] = []"
| "audit_records (LogInfo u m # es) = (u, m) # audit_records es"
| "audit_records (_ # es) = audit_records es"

fun is_log :: "event \<Rightarrow> bool" where
  "is_log (LogInfo u m) = True"
| "is_log (LogDebug d) = True"
| "is_log _ = False"

section \<open>Library functions of the Go distribution\<close>

text \<open>
  \<open>base64.StdEncoding.EncodeToString\<close>: the alphabet of RFC 4648, three bytes to four
  characters, \<open>=\<close> padding.
\<close>

definition encodeStd :: bytes where
  "encodeStd = go_bytes ''ABCDEFGHIJKLMNOPQRSTUVWXYZabcdefghijklmnopqrstuvwxyz0123456789+/''"

definition enc64 :: "byte \<Rightarrow> byte" where
  "enc64 v = encodeStd ! unat (v AND 0x3F)"

fun EncodeToString :: "bytes \<Rightarrow> bytes" where
  "EncodeToString (a # b # c # src) =
     [enc64 (drop_bit 2 a), enc64 (push_bit 4 a OR drop_bit 4 b),
      enc64 (push_bit 2 b OR drop_bit 6 c), enc64 c] @ EncodeToString src"
| "EncodeToString [a, b] =
     [enc64 (drop_bit 2 a), enc64 (push_bit 4 a OR drop_bit 4 b), enc64 (push_bit 2 b), 61]"
| "EncodeToString [a] = [enc64 (drop_bit 2 a), enc64 (push_bit 4 a), 61, 61]"
| "EncodeToString [] = []"

text \<open>
  The decoding of RFC 4648, the inverse that \<open>base64.StdEncoding.DecodeString\<close>
  computes on padded text without line breaks. It is here to say what "valid base64
  of the bytes" means for the text that \<open>EncodeToString\<close> makes.
\<close>

definition dec64 :: "byte \<Rightarrow> byte option" where
  "dec64 ch = map_of (zip encodeStd (map of_nat [0..<64])) ch"

fun DecodeString :: "bytes \<Rightarrow> bytes option" where
  "DecodeString [] = Some []"
| "DecodeString (p # q # r # s # rest) =
     (case (dec64 p, dec64 q) of
        (Some x, Some y) \<Rightarrow>
          (if rest = [] \<and> r = 61 \<and> s = 61 then Some [push_bit 2 x OR drop_bit 4 y]
           else case dec64 r of
             None \<Rightarrow> None
           | Some z \<Rightarrow>
               (if rest = [] \<and> s = 61
                then Some [push_bit 2 x OR drop_bit 4 y, push_bit 4 y OR drop_bit 2 z]
                else case (dec64 s, DecodeString rest) of
                  (Some w, Some ds) \<Rightarrow>
                    Some ([push_bit 2 x OR drop_bit 4 y, push_bit 4 y OR drop_bit 2 z,
                           push_bit 6 z OR w] @ ds)
                | _ \<Rightarrow> None))
      | _ \<Rightarrow> None)"
| "DecodeString _ = None"

text \<open>
  \<open>strings.Replace(s, old, "", -1)\<close> for a non-empty \<open>old\<close>: the non-overlapping
  occurrences of \<open>old\<close>, found from the left, are cut out.
\<close>

fun strings_Replace_empty :: "bytes \<Rightarrow> bytes \<Rightarrow> bytes" where
  "strings_Replace_empty [] old = []"
| "strings_Replace_empty (x # s) old =
     (if take (length old) (x # s) = old \<and> old \<noteq> []
      then strings_Replace_empty (drop (length old) (x # s)) old
      else x # strings_Replace_empty s old)"

text \<open>
  The conversion \<open>int(x)\<close> of a \<open>float64\<close>: the fraction is discarded (truncation towards
  zero).
\<close>

definition truncate :: "rat \<Rightarrow> int" where
  "truncate x = (if 0 \<le> x then \<lfloor>x\<rfloor> else \<lceil>x\<rceil>)"

definition int_of_float64 :: "env \<Rightarrow> rat \<Rightarrow> int" where
  "int_of_float64 c x =
     (if - (2 ^ 63) \<le> truncate x \<and> truncate x < 2 ^ 63 then truncate x
      else float64_out_of_range c x)"

text \<open>
  \<open>string(a)\<close> for a byte \<open>a\<close> is the UTF-8 encoding of the code point \<open>a\<close>: one byte
  below 128, two bytes from 128 on.
\<close>

definition string_of_byte :: "byte \<Rightarrow> bytes" where
  "string_of_byte a = (if a < 128 then [a] else [0xC0 OR drop_bit 6 a, 0x80 OR (a AND 0x3F)])"

section \<open>The control-character table and the rendering helper\<close>

definition asciiControlChars :: "(int \<times> string) list" where
  "asciiControlChars =
    [(0, ''NUL''), (1, ''SOH''), (2, ''STX''), (3, ''ETX''), (4, ''EOT''), (5, ''ENQ''),
     (6, ''ACK''), (7, ''BEL''), (8, ''BS''), (9, ''HT''), (10, ''LF''), (11, ''VT''),
     (12, ''FF''), (13, ''CR''), (14, ''SO''), (15, ''SI''), (16, ''DLE''), (17, ''DC1''),
     (18, ''DC2''), (19, ''DC3''), (20, ''DC4''), (21, ''NAK''), (22, ''SYN''), (23, ''ETB''),
     (24, ''CAN''), (25, ''EM''), (26, ''SUB''), (27, ''ESC''), (28, ''FS''), (29, ''GS''),
     (30, ''RS''), (31, ''US''), (127, ''DEL'')]"

definition lookup_asciiControlChars :: "int \<Rightarrow> string" where
  "lookup_asciiControlChars k = (case map_of asciiControlChars k of None \<Rightarrow> [] | Some s \<Rightarrow> s)"

fun asciiToString :: "bytes \<Rightarrow> bytes" where
  "asciiToString [] = []"
| "asciiToString (a # msg) =
     (let as = lookup_asciiControlChars (uint a)
      in (if as \<noteq> [] then go_bytes ''*'' @ go_bytes as @ go_bytes ''*'' else string_of_byte a)
           @ asciiToString msg)"

section \<open>The audit engine\<close>

definition filterASCII :: "string \<Rightarrow> bytes \<Rightarrow> bool" where
  "filterASCII action msg =
     (if length msg > 1 \<and> msg ! 0 = 13 \<and> msg ! 1 = 10
          \<and> msg ! (length msg - 1) = 32 \<and> msg ! (length msg - 2) = 35 then False
      else if length msg > 1 \<and> msg ! 0 = 115 \<and> msg ! 1 = 104
          \<and> msg ! (length msg - 1) = 32 \<and> msg ! (length msg - 2) = 35 then False
      else if length msg = 2 \<and> msg ! 0 = 13 \<and> msg ! 1 = 10 then False
      else if action = ''send'' \<and> length msg = 1 \<and> msg ! 0 = 13 then False
      else True)"

definition prompt :: bytes where
  "prompt = go_bytes ''sh-4.3#''"

text \<open>
  The loop \<open>for i, s := range msg\<close> of the \<open>"recive"\<close> branch. \<open>n\<close> is \<open>len(msg)\<close>, \<open>i\<close> the
  index of the byte at the head of the remaining list; the pair is the session and the
  events so far. \<open>continue\<close> is the recursive call, \<open>return\<close> ends the loop.
\<close>

fun audit_recive_loop :: "nat \<Rightarrow> nat \<Rightarrow> bytes \<Rightarrow> WebTTY \<times> event list \<Rightarrow> WebTTY \<times> event list" where
  "audit_recive_loop n i [] (wt, evs) = (wt, evs)"
| "audit_recive_loop n i (s # msg) (wt, evs) =
     (if s = 9 then
        audit_recive_loop n (i + 1) msg (wt\<lparr>waitForAutocomplete := True\<rparr>, evs)
      else if s = 8 then
        audit_recive_loop n (i + 1) msg
          (wt\<lparr>auditBuffer := take (length (auditBuffer wt)) (auditBuffer wt)\<rparr>, evs)
      else if s = 13 then
        (if length (auditBuffer wt) > 0 \<and> i = n - 1 then
           audit_recive_loop n (i + 1) msg
             (wt\<lparr>auditBuffer := []\<rparr>,
              evs @ [LogInfo (auditUser wt)
                       (go_bytes ''msg='' @ strings_Replace_empty (auditBuffer wt) prompt)])
         else if i = 0 then (wt, evs @ [LogDebug DebugLeadingCR])
         else audit_recive_loop n (i + 1) msg (wt, evs))
      else
        audit_recive_loop n (i + 1) msg
          (wt\<lparr>auditBuffer := auditBuffer wt @ [s]\<rparr>, evs @ [LogDebug (DebugByte s)]))"

definition audit :: "string \<Rightarrow> bytes \<Rightarrow> WebTTY \<Rightarrow> WebTTY \<times> event list" where
  "audit action msg wt =
     (if \<not> filterASCII action msg then (wt, [])
      else if action = ''send'' then
        (let wt1 = (if waitForAutocomplete wt
                    then wt\<lparr>waitForAutocomplete := False, auditBuffer := auditBuffer wt @ msg\<rparr>
                    else wt)
         in (wt1, if length msg > 1 \<and> msg ! 0 \<noteq> 35
                  then [LogDebug (DebugSend (auditUser wt1) (asciiToString msg))] else []))
      else if action = ''recive'' then
        (if length msg > 0 then
           audit_recive_loop (length msg) 0 msg
             (wt, [LogDebug (DebugRecive (auditUser wt) (asciiToString msg))])
         else (wt, []))
      else (wt, []))"

section \<open>The bridge engine\<close>

definition masterWrite :: "conns \<Rightarrow> bytes \<Rightarrow> error option \<times> event list" where
  "masterWrite io data =
     (case masterConn_Write io data of
        Some err \<Rightarrow> (Some (Wrapf err ''failed to write to master''), [MasterWrite data])
      | None \<Rightarrow> (None, [MasterWrite data]))"

definition handleSlaveReadEvent :: "env \<Rightarrow> conns \<Rightarrow> bytes \<Rightarrow> WebTTY \<Rightarrow> error option outcome" where
  "handleSlaveReadEvent c io data wt =
     (case audit ''send'' data wt of (wt1, evs) \<Rightarrow>
        (let safeMessage = EncodeToString data in
         case masterWrite io (Output c # safeMessage) of
           (Some err, ws) \<Rightarrow> (Some (Wrapf err ''failed to send message to master''), wt1, evs @ ws)
         | (None, ws) \<Rightarrow> (None, wt1, evs @ ws)))"

definition handleMasterReadEvent :: "env \<Rightarrow> conns \<Rightarrow> bytes \<Rightarrow> WebTTY \<Rightarrow> error option outcome" where
  "handleMasterReadEvent c io data wt =
     (if length data = 0 then
        (Some (New ''unexpected zero length read from master''), wt, [])
      else case audit ''recive'' (drop 1 data) wt of (wt1, evs) \<Rightarrow>
        (if data ! 0 = Input c then
           (if \<not> permitWrite wt1 then (None, wt1, evs)
            else if length data \<le> 1 then (None, wt1, evs)
            else case slave_Write io (drop 1 data) of
                   Some err \<Rightarrow> (Some (Wrapf err ''failed to write received data to slave''),
                                 wt1, evs @ [SlaveWrite (drop 1 data)])
                 | None \<Rightarrow> (None, wt1, evs @ [SlaveWrite (drop 1 data)]))
         else if data ! 0 = Ping c then
           (case masterWrite io [Pong c] of
              (Some err, ws) \<Rightarrow> (Some (Wrapf err ''failed to return Pong message to master''),
                                  wt1, evs @ ws)
            | (None, ws) \<Rightarrow> (None, wt1, evs @ ws))
         else if data ! 0 = ResizeTerminal c then
           (if columns wt1 \<noteq> 0 \<and> rows wt1 \<noteq> 0 then (None, wt1, evs)
            else if length data \<le> 1 then
              (Some (New ''received malformed remote command for terminal resize: empty payload''),
               wt1, evs)
            else case json_Unmarshal c (drop 1 data) of
                   Inl err \<Rightarrow> (Some (Wrapf err ''received malformed data for terminal resize''),
                                wt1, evs)
                 | Inr args \<Rightarrow>
                     (let rows' = (if rows wt1 = 0 then int_of_float64 c (Rows args) else rows wt1);
                          columns' = (if columns wt1 = 0 then int_of_float64 c (Columns args)
                                      else columns wt1)
                      in (None, wt1, evs @ [SlaveResizeTerminal columns' rows'])))
         else (Some (Errorf_unknown_message_type (data ! 0)), wt1, evs)))"

text \<open>
  The two pumps of \<open>Run\<close>, each on its own: the \<open>for\<close> loop reads, stops with the sentinel
  when the read fails, and otherwise hands \<open>buffer[:n]\<close> to the handler. The script lists,
  for the successive iterations, what the read returns (the bytes \<open>buffer[:n]\<close> and the
  error) and what the connections answer during the handler. The loop has no exit of
  its own: \<open>None\<close> for the whole pump says that it is still reading when the script
  ends.
\<close>

type_synonym turn = "(bytes \<times> error option) \<times> conns"

fun slave_pump :: "env \<Rightarrow> turn list \<Rightarrow> WebTTY \<Rightarrow> error option outcome" where
  "slave_pump c [] wt = (None, wt, [])"
| "slave_pump c (((data, rerr), io) # script) wt =
     (case rerr of
        Some e \<Rightarrow> (Some ErrSlaveClosed, wt, [])
      | None \<Rightarrow>
          (case handleSlaveReadEvent c io data wt of
             (Some err, wt1, evs) \<Rightarrow> (Some err, wt1, evs)
           | (None, wt1, evs) \<Rightarrow>
               (case slave_pump c script wt1 of (r, wt2, evs2) \<Rightarrow> (r, wt2, evs @ evs2))))"

fun master_pump :: "env \<Rightarrow> turn list \<Rightarrow> WebTTY \<Rightarrow> error option outcome" where
  "master_pump c [] wt = (None, wt, [])"
| "master_pump c (((data, rerr), io) # script) wt =
     (case rerr of
        Some e \<Rightarrow> (Some ErrMasterClosed, wt, [])
      | None \<Rightarrow>
          (case handleMasterReadEvent c io data wt of
             (Some err, wt1, evs) \<Rightarrow> (Some err, wt1, evs)
           | (None, wt1, evs) \<Rightarrow>
               (case master_pump c script wt1 of (r, wt2, evs2) \<Rightarrow> (r, wt2, evs @ evs2))))"

section \<open>A concrete session\<close>

text \<open>
  The session that \<open>New\<close> builds when no option is given (\<open>permitWrite\<close> false, no fixed
  size, \<open>bufferSize\<close> 1024, every other field at its zero value), one assignment of the
  message-type constants with a decoder that knows the resize payload
  \<open>{"columns":80,"rows":24}\<close> and rejects every other one, and two pairs of connections:
  one on which every write succeeds, one on which every write fails.
\<close>

definition wt0 :: WebTTY where
  "wt0 = \<lparr>windowTitle = [], permitWrite = False, columns = 0, rows = 0, reconnect = 0,
     masterPrefs = None, bufferSize = 1024, auditBuffer = [], auditUser = [],
     waitForAutocomplete = False\<rparr>"

definition payload_80x24 :: bytes where
  "payload_80x24 =
     go_bytes (''{'' @ [CHR 0x22] @ ''columns'' @ [CHR 0x22] @ '':80,''
                 @ [CHR 0x22] @ ''rows'' @ [CHR 0x22] @ '':24}'')"

definition demo_Unmarshal :: "bytes \<Rightarrow> error + argResizeTerminal" where
  "demo_Unmarshal p =
     (if p = payload_80x24 then Inr \<lparr>Columns = 80, Rows = 24\<rparr> else Inl (Foreign 0))"

definition demo_env :: env where
  "demo_env = \<lparr>Input = 49, Ping = 50, ResizeTerminal = 51, Output = 49, Pong = 50,
     json_Unmarshal = demo_Unmarshal, float64_out_of_range = (\<lambda>x. - (2 ^ 63))\<rparr>"

definition good_conns :: conns where
  "good_conns = \<lparr>masterConn_Write = (\<lambda>data. None), slave_Write = (\<lambda>data. None)\<rparr>"

definition broken_conns :: conns where
  "broken_conns = \<lparr>masterConn_Write = (\<lambda>data. Some (Foreign 1)),
     slave_Write = (\<lambda>data. Some (Foreign 2))\<rparr>"

section \<open>The noise patterns in the specification's words\<close>

text \<open>
  The four patterns as the specification lists them, to be compared with \<open>filterASCII\<close>:
  (a) the first two bytes are CR, LF and the last two are \<open>#\<close>, SPACE; (b) the first two
  bytes are \<open>s\<close>, \<open>h\<close> and the last two are \<open>#\<close>, SPACE; (c) the chunk is exactly CR, LF;
  (d) the chunk is a single CR on the send direction.
\<close>

definition noise_pattern :: "string \<Rightarrow> bytes \<Rightarrow> bool" where
  "noise_pattern action msg \<longleftrightarrow>
     (take 2 msg = [13, 10] \<and> drop (length msg - 2) msg = [35, 32])
   \<or> (take 2 msg = [115, 104] \<and> drop (length msg - 2) msg = [35, 32])
   \<or> msg = [13, 10]
   \<or> (action = ''send'' \<and> msg = [13])"

section \<open>What the audit engine leaves alone\<close>

lemma master_writes_append: "master_writes (xs @ ys) = master_writes xs @ master_writes ys"
  by (induction xs rule: master_writes.induct) simp_all

lemma slave_writes_append: "slave_writes (xs @ ys) = slave_writes xs @ slave_writes ys"
  by (induction xs rule: slave_writes.induct) simp_all

lemma resizes_append: "resizes (xs @ ys) = resizes xs @ resizes ys"
  by (induction xs rule: resizes.induct) simp_all

lemma audit_records_append: "audit_records (xs @ ys) = audit_records xs @ audit_records ys"
  by (induction xs rule: audit_records.induct) simp_all

lemma logs_no_io:
  "list_all is_log ls \<Longrightarrow> master_writes ls = [] \<and> slave_writes ls = [] \<and> resizes ls = []"
proof (induction ls)
  case Nil
  show ?case by simp
next
  case (Cons e ls)
  then show ?case by (cases e) simp_all
qed

lemma loop_fields:
  "permitWrite (fst (audit_recive_loop n i msg (wt, evs))) = permitWrite wt
   \<and> columns (fst (audit_recive_loop n i msg (wt, evs))) = columns wt
   \<and> rows (fst (audit_recive_loop n i msg (wt, evs))) = rows wt"
  by (induction msg arbitrary: i wt evs) simp_all

lemma loop_events:
  "\<exists>ls. snd (audit_recive_loop n i msg (wt, evs)) = evs @ ls \<and> list_all is_log ls"
proof (induction msg arbitrary: i wt evs)
  case Nil
  show ?case by simp
next
  case (Cons s msg)
  show ?case
  proof (cases "s = 13 \<and> length (auditBuffer wt) > 0 \<and> i = n - 1")
    case True
    obtain ls where "snd (audit_recive_loop n (i + 1) msg
             (wt\<lparr>auditBuffer := []\<rparr>,
              evs @ [LogInfo (auditUser wt)
                       (go_bytes ''msg='' @ strings_Replace_empty (auditBuffer wt) prompt)])) =
         (evs @ [LogInfo (auditUser wt)
                       (go_bytes ''msg='' @ strings_Replace_empty (auditBuffer wt) prompt)]) @ ls"
       and "list_all is_log ls"
      using Cons.IH by blast
    with True show ?thesis by simp
  next
    case False
    note notflush = this
    show ?thesis
    proof (cases "s = 9 \<or> s = 8 \<or> s = 13")
      case True
      then show ?thesis using notflush Cons.IH by auto
    next
      case False
      obtain ls where "snd (audit_recive_loop n (i + 1) msg
          (wt\<lparr>auditBuffer := auditBuffer wt @ [s]\<rparr>, evs @ [LogDebug (DebugByte s)])) =
           (evs @ [LogDebug (DebugByte s)]) @ ls" and "list_all is_log ls"
        using Cons.IH by blast
      with False show ?thesis by simp
    qed
  qed
qed

lemma audit_fields:
  "permitWrite (fst (audit action msg wt)) = permitWrite wt
   \<and> columns (fst (audit action msg wt)) = columns wt
   \<and> rows (fst (audit action msg wt)) = rows wt"
  by (simp add: audit_def loop_fields Let_def)

lemma audit_events: "list_all is_log (snd (audit action msg wt))"
proof -
  obtain ls where "snd (audit_recive_loop (length msg) 0 msg
             (wt, [LogDebug (DebugRecive (auditUser wt) (asciiToString msg))])) =
       [LogDebug (DebugRecive (auditUser wt) (asciiToString msg))] @ ls" and "list_all is_log ls"
    using loop_events by blast
  then show ?thesis by (simp add: audit_def Let_def)
qed

lemma audit_no_io:
  "master_writes (snd (audit action msg wt)) = []
   \<and> slave_writes (snd (audit action msg wt)) = []
   \<and> resizes (snd (audit action msg wt)) = []"
  using audit_events logs_no_io by blast

section \<open>The dispatch, branch by branch\<close>

text \<open>
  \<open>handleMasterReadEvent\<close> on a frame with a type byte: the audit of the payload first,
  then the branch of the \<open>switch\<close>. The session that comes out is the one the audit
  leaves; the branches only read it.
\<close>

lemma dispatch_Input:
  "handleMasterReadEvent c io (Input c # p) wt =
     (if \<not> permitWrite wt \<or> p = [] then
        (None, fst (audit ''recive'' p wt), snd (audit ''recive'' p wt))
      else case slave_Write io p of
             Some err \<Rightarrow> (Some (Wrapf err ''failed to write received data to slave''),
                          fst (audit ''recive'' p wt), snd (audit ''recive'' p wt) @ [SlaveWrite p])
           | None \<Rightarrow> (None, fst (audit ''recive'' p wt),
                       snd (audit ''recive'' p wt) @ [SlaveWrite p]))"
  using audit_fields [of "''recive''" p wt]
  by (cases "audit ''recive'' p wt") (auto simp: handleMasterReadEvent_def split: option.split)

lemma dispatch_Ping:
  assumes "codes_distinct c"
  shows "handleMasterReadEvent c io (Ping c # p) wt =
     (case masterConn_Write io [Pong c] of
        Some err \<Rightarrow>
          (Some (Wrapf (Wrapf err ''failed to write to master'')
                   ''failed to return Pong message to master''),
           fst (audit ''recive'' p wt), snd (audit ''recive'' p wt) @ [MasterWrite [Pong c]])
      | None \<Rightarrow> (None, fst (audit ''recive'' p wt),
                  snd (audit ''recive'' p wt) @ [MasterWrite [Pong c]]))"
proof -
  have d: "Ping c \<noteq> Input c"
    using assms by (auto simp: codes_distinct_def)
  show ?thesis
    using d
    by (cases "audit ''recive'' p wt")
       (auto simp: handleMasterReadEvent_def masterWrite_def split: option.split)
qed

lemma dispatch_ResizeTerminal:
  assumes "codes_distinct c"
  shows "handleMasterReadEvent c io (ResizeTerminal c # p) wt =
      (if columns wt \<noteq> 0 \<and> rows wt \<noteq> 0 then
         (None, fst (audit ''recive'' p wt), snd (audit ''recive'' p wt))
       else if p = [] then
         (Some (New ''received malformed remote command for terminal resize: empty payload''),
          fst (audit ''recive'' p wt), snd (audit ''recive'' p wt))
       else case json_Unmarshal c p of
              Inl err \<Rightarrow> (Some (Wrapf err ''received malformed data for terminal resize''),
                          fst (audit ''recive'' p wt), snd (audit ''recive'' p wt))
            | Inr args \<Rightarrow>
               (None, fst (audit ''recive'' p wt), snd (audit ''recive'' p wt) @
                  [SlaveResizeTerminal
                     (if columns wt = 0 then int_of_float64 c (Columns args) else columns wt)
                     (if rows wt = 0 then int_of_float64 c (Rows args) else rows wt)]))"
proof -
  have d: "ResizeTerminal c \<noteq> Input c" "ResizeTerminal c \<noteq> Ping c"
    using assms by (auto simp: codes_distinct_def)
  show ?thesis
    using d audit_fields [of "''recive''" p wt]
    by (cases "audit ''recive'' p wt")
       (auto simp: handleMasterReadEvent_def Let_def split: sum.split)
qed

lemma dispatch_unknown:
  assumes "t \<noteq> Input c" and "t \<noteq> Ping c" and "t \<noteq> ResizeTerminal c"
  shows "handleMasterReadEvent c io (t # p) wt =
     (Some (Errorf_unknown_message_type t), fst (audit ''recive'' p wt),
      snd (audit ''recive'' p wt))"
  using assms by (cases "audit ''recive'' p wt") (simp add: handleMasterReadEvent_def)

lemma demo_codes_distinct: "codes_distinct demo_env"
  by (simp add: codes_distinct_def demo_env_def)

section \<open>Input frames\<close>

text \<open>
  C1. A frame whose type byte is \<open>Input\<close> is written to the slave exactly when
  \<open>permitWrite\<close> is set and the payload is not empty, and then the payload is the one
  slave write; in every other case the dispatch writes nothing to the slave and
  returns no error.
\<close>

theorem C1_input_forwarded_iff_permitted:
  "(permitWrite wt \<and> payload \<noteq> [] \<longrightarrow>
      slave_writes (events_of (handleMasterReadEvent c io (Input c # payload) wt)) = [payload])
   \<and> (\<not> (permitWrite wt \<and> payload \<noteq> []) \<longrightarrow>
      slave_writes (events_of (handleMasterReadEvent c io (Input c # payload) wt)) = []
      \<and> err_of (handleMasterReadEvent c io (Input c # payload) wt) = None)"
  using audit_no_io [of "''recive''" payload wt]
  by (cases "slave_Write io payload")
     (simp_all add: dispatch_Input events_of_def err_of_def slave_writes_append)

theorem C1_input_forwarded_iff_permitted_witness:
  "slave_writes (events_of (handleMasterReadEvent demo_env good_conns
       (Input demo_env # go_bytes ''ls'') (wt0\<lparr>permitWrite := True\<rparr>))) = [go_bytes ''ls'']
   \<and> slave_writes (events_of (handleMasterReadEvent demo_env good_conns
       (Input demo_env # go_bytes ''rm -rf /'') wt0)) = []
   \<and> err_of (handleMasterReadEvent demo_env good_conns
       (Input demo_env # go_bytes ''rm -rf /'') wt0) = None"
  using C1_input_forwarded_iff_permitted
          [of "wt0\<lparr>permitWrite := True\<rparr>" "go_bytes ''ls''" demo_env good_conns]
    C1_input_forwarded_iff_permitted [of wt0 "go_bytes ''rm -rf /''" demo_env good_conns]
  by (simp add: wt0_def go_bytes_def)

section \<open>The base64 text can be decoded\<close>

lemma encodeStd_length: "length encodeStd = 64"
  by (simp add: encodeStd_def go_bytes_def)

lemma encodeStd_distinct: "distinct encodeStd"
  by (simp add: encodeStd_def go_bytes_def)

lemma pad_not_in_alphabet: "61 \<notin> set encodeStd"
  by (simp add: encodeStd_def go_bytes_def)

lemma sextet_less: "unat ((v :: byte) AND 0x3F) < 64"
proof -
  have "v AND 0x3F \<le> 0x3F"
    by (rule word_and_le1)
  then show ?thesis
    by (simp add: word_le_nat_alt)
qed

lemma dec64_enc64: "dec64 (enc64 v) = Some (v AND 0x3F)"
proof -
  let ?n = "unat (v AND 0x3F)"
  have n: "?n < 64" by (rule sextet_less)
  have "map_of (zip encodeStd (map of_nat [0..<64])) (encodeStd ! ?n) =
          Some ((map of_nat [0..<64] :: bytes) ! ?n)"
    using n by (intro map_of_zip_nth) (simp_all add: encodeStd_length encodeStd_distinct)
  moreover have "(map of_nat [0..<64] :: bytes) ! ?n = v AND 0x3F"
    using n by simp
  ultimately show ?thesis
    by (simp add: dec64_def enc64_def)
qed

lemma enc64_not_pad: "enc64 v \<noteq> 61"
proof -
  have "enc64 v \<in> set encodeStd"
    using sextet_less [of v] by (simp add: enc64_def encodeStd_length)
  then show ?thesis
    using pad_not_in_alphabet by metis
qed

lemma and_3F: "(v :: byte) AND 0x3F = take_bit 6 v"
proof -
  have "(0x3F :: byte) = mask 6"
    by (simp add: mask_eq_exp_minus_1)
  then show ?thesis
    by (simp add: take_bit_eq_mask)
qed

lemma high_bit_byte: "\<not> bit (w :: byte) (8 + n)"
  using bit_imp_le_length [of w "8 + n"] by auto

lemma Suc_Suc_diff_2: "2 \<le> n \<Longrightarrow> Suc (Suc (n - 2)) = n"
  by simp

lemma join1:
  "push_bit 2 (drop_bit 2 a AND 0x3F) OR drop_bit 4 ((push_bit 4 a OR drop_bit 4 b) AND 0x3F)
     = (a :: byte)"
  unfolding and_3F
  by (rule bit_word_eqI) (auto simp: bit_simps high_bit_byte Suc_Suc_diff_2 not_less)

lemma join2:
  "push_bit 4 ((push_bit 4 a OR drop_bit 4 b) AND 0x3F)
     OR drop_bit 2 ((push_bit 2 b OR drop_bit 6 c) AND 0x3F) = (b :: byte)"
  unfolding and_3F
  by (rule bit_word_eqI) (auto simp: bit_simps high_bit_byte Suc_Suc_diff_2 not_less)

lemma join3:
  "push_bit 6 ((push_bit 2 b OR drop_bit 6 c) AND 0x3F) OR (c AND 0x3F) = (c :: byte)"
  unfolding and_3F
  by (rule bit_word_eqI) (auto simp: bit_simps high_bit_byte Suc_Suc_diff_2 not_less)

lemma join1_last:
  "push_bit 2 (drop_bit 2 a AND 0x3F) OR drop_bit 4 (push_bit 4 a AND 0x3F) = (a :: byte)"
  unfolding and_3F
  by (rule bit_word_eqI) (auto simp: bit_simps high_bit_byte Suc_Suc_diff_2 not_less)

lemma join2_last:
  "push_bit 4 ((push_bit 4 a OR drop_bit 4 b) AND 0x3F)
     OR drop_bit 2 (push_bit 2 b AND 0x3F) = (b :: byte)"
  unfolding and_3F
  by (rule bit_word_eqI) (auto simp: bit_simps high_bit_byte Suc_Suc_diff_2 not_less)

lemma decode_quad:
  "DecodeString (enc64 x # enc64 y # enc64 z # enc64 w # rest) =
     (case DecodeString rest of
        None \<Rightarrow> None
      | Some ds \<Rightarrow>
          Some (( push_bit 2 (x AND 0x3F) OR drop_bit 4 (y AND 0x3F))
                # (push_bit 4 (y AND 0x3F) OR drop_bit 2 (z AND 0x3F))
                # (push_bit 6 (z AND 0x3F) OR (w AND 0x3F)) # ds))"
  by (simp add: dec64_enc64 enc64_not_pad split: option.split)

lemma decode_triple:
  "DecodeString [enc64 x, enc64 y, enc64 z, 61] =
     Some [push_bit 2 (x AND 0x3F) OR drop_bit 4 (y AND 0x3F),
           push_bit 4 (y AND 0x3F) OR drop_bit 2 (z AND 0x3F)]"
  by (simp add: dec64_enc64 enc64_not_pad)

lemma decode_pair:
  "DecodeString [enc64 x, enc64 y, 61, 61] =
     Some [push_bit 2 (x AND 0x3F) OR drop_bit 4 (y AND 0x3F)]"
  by (simp add: dec64_enc64 enc64_not_pad)

lemma EncodeToString_alphabet: "set (EncodeToString D) \<subseteq> set encodeStd \<union> {61}"
proof -
  have m: "enc64 v \<in> set encodeStd" for v
    using sextet_less [of v] by (simp add: enc64_def encodeStd_length)
  show ?thesis
    by (induction D rule: EncodeToString.induct) (simp_all add: m)
qed

lemma DecodeString_EncodeToString: "DecodeString (EncodeToString D) = Some D"
proof (induction D rule: EncodeToString.induct)
  case (1 a b c src)
  then show ?case
    by (simp only: EncodeToString.simps append.simps decode_quad option.case join1 join2 join3)
next
  case (2 a b)
  show ?case
    by (simp only: EncodeToString.simps decode_triple join1 join2_last)
next
  case (3 a)
  show ?case
    by (simp only: EncodeToString.simps decode_pair join1_last)
next
  case 4
  show ?case by simp
qed

lemma EncodeToString_inj: "EncodeToString D = EncodeToString D' \<Longrightarrow> D = D'"
  by (metis DecodeString_EncodeToString option.inject)

section \<open>Output frames\<close>

text \<open>
  C2. For every byte sequence \<open>D\<close> read from the slave, the slave-read handler makes
  one write to the master, the \<open>Output\<close> byte followed by the standard base64 text of
  \<open>D\<close>, and it returns no error exactly when that write succeeds.
\<close>

theorem C2_output_frame_is_base64:
  "master_writes (events_of (handleSlaveReadEvent c io D wt)) = [Output c # EncodeToString D]
   \<and> (err_of (handleSlaveReadEvent c io D wt) = None
        \<longleftrightarrow> masterConn_Write io (Output c # EncodeToString D) = None)"
proof -
  obtain wt1 evs where a: "audit ''send'' D wt = (wt1, evs)"
    by (cases "audit ''send'' D wt")
  have s: "master_writes evs = []"
    using audit_no_io [of "''send''" D wt] a by simp
  show ?thesis
    by (cases "masterConn_Write io (Output c # EncodeToString D)")
       (simp_all add: handleSlaveReadEvent_def a s events_of_def err_of_def
          master_writes_append masterWrite_def Let_def)
qed

lemma output_payload_decodes:
  "\<exists>payload. master_writes (events_of (handleSlaveReadEvent c io D wt)) = [Output c # payload]
      \<and> DecodeString payload = Some D \<and> set payload \<subseteq> set encodeStd \<union> {61}"
proof -
  obtain wt1 evs where a: "audit ''send'' D wt = (wt1, evs)"
    by (cases "audit ''send'' D wt")
  have s: "master_writes evs = []"
    using audit_no_io [of "''send''" D wt] a by simp
  have "master_writes (events_of (handleSlaveReadEvent c io D wt)) =
          [Output c # EncodeToString D]"
    by (cases "masterConn_Write io (Output c # EncodeToString D)")
       (simp_all add: handleSlaveReadEvent_def a s events_of_def master_writes_append
          masterWrite_def Let_def)
  then show ?thesis
    using DecodeString_EncodeToString [of D] EncodeToString_alphabet [of D] by simp
qed

section \<open>Resize frames\<close>

lemma payload_80x24_nonempty: "payload_80x24 \<noteq> []"
  by (simp add: payload_80x24_def go_bytes_def)

lemma demo_rejects: "p \<noteq> payload_80x24 \<Longrightarrow> json_Unmarshal demo_env p = Inl (Foreign 0)"
  by (simp add: demo_env_def demo_Unmarshal_def)

lemma demo_accepts: "json_Unmarshal demo_env payload_80x24 = Inr \<lparr>Columns = 80, Rows = 24\<rparr>"
  by (simp add: demo_env_def demo_Unmarshal_def)

lemma int_of_float64_numeral: "int_of_float64 c 80 = 80" "int_of_float64 c 24 = 24"
  by (simp_all add: int_of_float64_def truncate_def)

text \<open>
  C3 does not hold as the specification states it: with both \<open>columns\<close> and \<open>rows\<close> fixed, a
  \<open>ResizeTerminal\<close> frame with an empty payload leaves the \<open>switch\<close> at the \<open>break\<close> of line
  209, before the payload is looked at, and the dispatch returns no error.
\<close>

theorem C3_resize_unchecked_when_size_fixed_counterexample:
  "err_of (handleMasterReadEvent demo_env good_conns [ResizeTerminal demo_env]
      (wt0\<lparr>columns := 80, rows := 24\<rparr>)) = None"
  by (simp add: dispatch_ResizeTerminal [OF demo_codes_distinct] wt0_def err_of_def)

text \<open>
  C3, amended. While at least one of \<open>columns\<close>, \<open>rows\<close> is zero, a \<open>ResizeTerminal\<close> frame
  whose payload is empty, or whose payload the JSON decoder rejects, makes the dispatch
  return a protocol error, and the slave's resize is not called. When both are nonzero
  the frame is accepted whatever its payload is: no error and no resize.
\<close>

theorem C3_malformed_resize_rejected:
  assumes "codes_distinct c"
  shows "(columns wt = 0 \<or> rows wt = 0 \<longrightarrow>
           err_of (handleMasterReadEvent c io [ResizeTerminal c] wt) =
             Some (New ''received malformed remote command for terminal resize: empty payload'')
           \<and> resizes (events_of (handleMasterReadEvent c io [ResizeTerminal c] wt)) = [])
       \<and> ((columns wt = 0 \<or> rows wt = 0) \<and> payload \<noteq> [] \<and> json_Unmarshal c payload = Inl e \<longrightarrow>
           err_of (handleMasterReadEvent c io (ResizeTerminal c # payload) wt) =
             Some (Wrapf e ''received malformed data for terminal resize'')
           \<and> resizes (events_of (handleMasterReadEvent c io (ResizeTerminal c # payload) wt)) = [])
       \<and> (columns wt \<noteq> 0 \<and> rows wt \<noteq> 0 \<longrightarrow>
           err_of (handleMasterReadEvent c io (ResizeTerminal c # payload) wt) = None
           \<and> resizes (events_of (handleMasterReadEvent c io (ResizeTerminal c # payload) wt)) = [])"
  using audit_no_io [of "''recive''" payload wt] audit_no_io [of "''recive''" "[]" wt]
  by (simp add: dispatch_ResizeTerminal [OF assms] err_of_def events_of_def)

theorem C3_malformed_resize_rejected_witness:
  "err_of (handleMasterReadEvent demo_env good_conns [ResizeTerminal demo_env] wt0) =
      Some (New ''received malformed remote command for terminal resize: empty payload'')
   \<and> resizes (events_of (handleMasterReadEvent demo_env good_conns
               [ResizeTerminal demo_env] wt0)) = []
   \<and> err_of (handleMasterReadEvent demo_env good_conns
               (ResizeTerminal demo_env # go_bytes ''{'') (wt0\<lparr>columns := 80\<rparr>)) =
      Some (Wrapf (Foreign 0) ''received malformed data for terminal resize'')
   \<and> resizes (events_of (handleMasterReadEvent demo_env good_conns
               (ResizeTerminal demo_env # go_bytes ''{'') (wt0\<lparr>columns := 80\<rparr>))) = []
   \<and> err_of (handleMasterReadEvent demo_env good_conns
               (ResizeTerminal demo_env # go_bytes ''{'') (wt0\<lparr>columns := 80, rows := 24\<rparr>)) = None
   \<and> resizes (events_of (handleMasterReadEvent demo_env good_conns
               (ResizeTerminal demo_env # go_bytes ''{'') (wt0\<lparr>columns := 80, rows := 24\<rparr>))) = []"
proof -
  have r: "json_Unmarshal demo_env (go_bytes ''{'') = Inl (Foreign 0)"
    by (rule demo_rejects) (simp add: payload_80x24_def go_bytes_def)
  have n: "go_bytes ''{'' \<noteq> []"
    by (simp add: go_bytes_def)
  show ?thesis
    using
      C3_malformed_resize_rejected
        [OF demo_codes_distinct, of wt0 good_conns "go_bytes ''{''" "Foreign 0"]
      C3_malformed_resize_rejected
        [OF demo_codes_distinct, of "wt0\<lparr>columns := 80\<rparr>" good_conns "go_bytes ''{''"
           "Foreign 0"]
      C3_malformed_resize_rejected
        [OF demo_codes_distinct, of "wt0\<lparr>columns := 80, rows := 24\<rparr>" good_conns
           "go_bytes ''{''" "Foreign 0"]
      r n
    by (simp add: wt0_def)
qed

text \<open>
  C4. For a \<open>ResizeTerminal\<close> frame with a non-empty payload that the decoder accepts:
  the dispatch returns no error; with both \<open>columns\<close> and \<open>rows\<close> nonzero the slave's
  resize is never called; otherwise it is called exactly once, and each axis gets the
  fixed value when that is nonzero and the decoded number converted to \<open>int\<close> when it is
  zero.
\<close>

theorem C4_resize_applied_per_axis:
  assumes "codes_distinct c" and "payload \<noteq> []" and "json_Unmarshal c payload = Inr args"
  shows "err_of (handleMasterReadEvent c io (ResizeTerminal c # payload) wt) = None
       \<and> resizes (events_of (handleMasterReadEvent c io (ResizeTerminal c # payload) wt)) =
          (if columns wt \<noteq> 0 \<and> rows wt \<noteq> 0 then []
           else [(if columns wt \<noteq> 0 then columns wt else int_of_float64 c (Columns args),
                  if rows wt \<noteq> 0 then rows wt else int_of_float64 c (Rows args))])"
  using audit_no_io [of "''recive''" payload wt] assms(2,3)
  by (simp add: dispatch_ResizeTerminal [OF assms(1)] err_of_def events_of_def resizes_append)

theorem C4_resize_applied_per_axis_witness:
  "resizes (events_of (handleMasterReadEvent demo_env good_conns
       (ResizeTerminal demo_env # payload_80x24) wt0)) = [(80, 24)]
   \<and> resizes (events_of (handleMasterReadEvent demo_env good_conns
       (ResizeTerminal demo_env # payload_80x24) (wt0\<lparr>rows := 50\<rparr>))) = [(80, 50)]
   \<and> resizes (events_of (handleMasterReadEvent demo_env good_conns
       (ResizeTerminal demo_env # payload_80x24) (wt0\<lparr>columns := 132, rows := 50\<rparr>))) = []
   \<and> err_of (handleMasterReadEvent demo_env good_conns
       (ResizeTerminal demo_env # payload_80x24) (wt0\<lparr>columns := 132, rows := 50\<rparr>)) = None"
  using
    C4_resize_applied_per_axis
      [OF demo_codes_distinct payload_80x24_nonempty demo_accepts, of good_conns wt0]
    C4_resize_applied_per_axis
      [OF demo_codes_distinct payload_80x24_nonempty demo_accepts, of good_conns
         "wt0\<lparr>rows := 50\<rparr>"]
    C4_resize_applied_per_axis
      [OF demo_codes_distinct payload_80x24_nonempty demo_accepts, of good_conns
         "wt0\<lparr>columns := 132, rows := 50\<rparr>"]
  by (simp add: wt0_def int_of_float64_numeral)

section \<open>The audit of keystrokes\<close>

lemma take_two: "2 \<le> length msg \<Longrightarrow> take 2 msg = [msg ! 0, msg ! 1]"
proof -
  assume "2 \<le> length msg"
  then obtain a b rest where "msg = a # b # rest"
    by (cases msg; cases "tl msg") auto
  then show ?thesis by simp
qed

lemma drop_two:
  assumes "2 \<le> length msg"
  shows "drop (length msg - 2) msg = [msg ! (length msg - 2), msg ! (length msg - 1)]"
proof -
  have a: "length msg - 2 < length msg" and b: "length msg - 1 < length msg"
    using assms by simp_all
  have s: "Suc (length msg - 2) = length msg - 1"
    using assms by simp
  have "drop (length msg - 2) msg = msg ! (length msg - 2) # drop (length msg - 1) msg"
    using Cons_nth_drop_Suc [OF a] s by simp
  moreover have "drop (length msg - 1) msg = [msg ! (length msg - 1)]"
    using Cons_nth_drop_Suc [OF b] assms by simp
  ultimately show ?thesis by simp
qed

lemma filterASCII_iff_noise: "filterASCII action msg \<longleftrightarrow> \<not> noise_pattern action msg"
proof (cases "2 \<le> length msg")
  case True
  have l: "1 < length msg" "\<not> length msg = 1"
    using True by simp_all
  have c: "msg = [13, 10] \<longleftrightarrow> length msg = 2 \<and> msg ! 0 = 13 \<and> msg ! 1 = 10"
    using take_two [OF True] by (cases "length msg = 2") auto
  show ?thesis
    unfolding filterASCII_def noise_pattern_def take_two [OF True] drop_two [OF True] c
    using l by auto
next
  case False
  then have s: "length msg \<le> 1" by simp
  then have n: "take 2 msg \<noteq> [a, b]" "msg \<noteq> [a, b]" for a b
    by (cases msg; simp)+
  have o: "msg = [13] \<longleftrightarrow> length msg = 1 \<and> msg ! 0 = 13"
    by (cases msg) auto
  show ?thesis
    using s by (auto simp: filterASCII_def noise_pattern_def n o)
qed

text \<open>
  C5. A CR at index \<open>i\<close> of a receive-direction chunk: when it is the last byte and
  the buffer is not empty, one audit record is logged, made of the buffer with the
  prompt text cut out, and the buffer is emptied; otherwise, when it is the first
  byte, the loop returns at once (the rest of the chunk is not looked at, no record,
  the buffer as it was); otherwise the loop goes on to the next byte with the session
  and the log unchanged.
\<close>

theorem C5_carriage_return:
  assumes "i < length msg" and "msg ! i = 13"
  shows "audit_recive_loop (length msg) i (drop i msg) (wt, evs) =
     (if i = length msg - 1 \<and> auditBuffer wt \<noteq> [] then
        (wt\<lparr>auditBuffer := []\<rparr>,
         evs @ [LogInfo (auditUser wt)
                  (go_bytes ''msg='' @ strings_Replace_empty (auditBuffer wt) prompt)])
      else if i = 0 then (wt, evs @ [LogDebug DebugLeadingCR])
      else audit_recive_loop (length msg) (i + 1) (drop (i + 1) msg) (wt, evs))"
proof -
  have d: "drop i msg = 13 # drop (i + 1) msg"
    using Cons_nth_drop_Suc [OF assms(1)] assms(2) by simp
  have e: "i = length msg - 1 \<Longrightarrow> drop (i + 1) msg = []"
    using assms(1) by simp
  show ?thesis
    using e by (auto simp: d)
qed

theorem C5_carriage_return_witness:
  "audit_recive_loop 3 2 [13] (wt0\<lparr>auditBuffer := go_bytes ''ls''\<rparr>, []) =
     (wt0, [LogInfo [] (go_bytes ''msg=ls'')])
   \<and> audit_recive_loop 2 0 (13 # go_bytes ''x'') (wt0, []) = (wt0, [LogDebug DebugLeadingCR])
   \<and> audit_recive_loop 3 1 (13 # go_bytes ''b'') (wt0\<lparr>auditBuffer := go_bytes ''a''\<rparr>, []) =
       audit_recive_loop 3 2 (go_bytes ''b'') (wt0\<lparr>auditBuffer := go_bytes ''a''\<rparr>, [])"
  using
    C5_carriage_return
      [of 2 "go_bytes ''ls'' @ [13]" "wt0\<lparr>auditBuffer := go_bytes ''ls''\<rparr>" "[]"]
    C5_carriage_return [of 0 "13 # go_bytes ''x''" wt0 "[]"]
    C5_carriage_return
      [of 1 "go_bytes ''a'' @ 13 # go_bytes ''b''" "wt0\<lparr>auditBuffer := go_bytes ''a''\<rparr>" "[]"]
  by (simp add: wt0_def go_bytes_def prompt_def)

lemma scenario_ls_CR:
  "audit ''recive'' (go_bytes ''ls'' @ [13]) wt0 =
     (wt0, [LogDebug (DebugRecive [] (go_bytes ''ls*CR*'')), LogDebug (DebugByte 108),
            LogDebug (DebugByte 115), LogInfo [] (go_bytes ''msg=ls'')])"
  by (simp add: audit_def filterASCII_def wt0_def go_bytes_def prompt_def
      lookup_asciiControlChars_def asciiControlChars_def string_of_byte_def)

lemma scenario_CR_x:
  "audit ''recive'' (13 # go_bytes ''x'') wt =
     (wt, [LogDebug (DebugRecive (auditUser wt) (go_bytes ''*CR*x'')), LogDebug DebugLeadingCR])"
  by (simp add: audit_def filterASCII_def go_bytes_def
      lookup_asciiControlChars_def asciiControlChars_def string_of_byte_def)

text \<open>
  C6. On a chunk that matches one of the four noise patterns the audit entry point
  does nothing: the session (\<open>auditBuffer\<close> and \<open>waitForAutocomplete\<close> included) is
  unchanged and nothing is logged.
\<close>

theorem C6_noise_is_not_audited:
  "noise_pattern action msg \<Longrightarrow> audit action msg wt = (wt, [])"
  by (simp add: audit_def filterASCII_iff_noise)

theorem C6_noise_is_not_audited_witness:
  "audit ''recive'' [13, 10] (wt0\<lparr>auditBuffer := go_bytes ''ls'', waitForAutocomplete := True\<rparr>)
     = (wt0\<lparr>auditBuffer := go_bytes ''ls'', waitForAutocomplete := True\<rparr>, [])
   \<and> audit ''send'' [13] (wt0\<lparr>auditBuffer := go_bytes ''ls'', waitForAutocomplete := True\<rparr>)
     = (wt0\<lparr>auditBuffer := go_bytes ''ls'', waitForAutocomplete := True\<rparr>, [])
   \<and> audit ''send'' (13 # 10 # go_bytes ''sh-4.3# '')
         (wt0\<lparr>auditBuffer := go_bytes ''ls'', waitForAutocomplete := True\<rparr>)
     = (wt0\<lparr>auditBuffer := go_bytes ''ls'', waitForAutocomplete := True\<rparr>, [])
   \<and> audit ''recive'' (go_bytes ''sh-4.3# '')
         (wt0\<lparr>auditBuffer := go_bytes ''ls'', waitForAutocomplete := True\<rparr>)
     = (wt0\<lparr>auditBuffer := go_bytes ''ls'', waitForAutocomplete := True\<rparr>, [])"
proof -
  let ?wt = "wt0\<lparr>auditBuffer := go_bytes ''ls'', waitForAutocomplete := True\<rparr>"
  have "noise_pattern ''recive'' [13, 10]" "noise_pattern ''send'' [13]"
    "noise_pattern ''send'' (13 # 10 # go_bytes ''sh-4.3# '')"
    "noise_pattern ''recive'' (go_bytes ''sh-4.3# '')"
    by (simp_all add: noise_pattern_def go_bytes_def)
  then show ?thesis
    using C6_noise_is_not_audited [of "''recive''" "[13, 10]" ?wt]
      C6_noise_is_not_audited [of "''send''" "[13]" ?wt]
      C6_noise_is_not_audited [of "''send''" "13 # 10 # go_bytes ''sh-4.3# ''" ?wt]
      C6_noise_is_not_audited [of "''recive''" "go_bytes ''sh-4.3# ''" ?wt]
    by simp
qed

text \<open>
  C7. A Backspace byte in a receive-direction chunk changes nothing: the loop goes on
  with the same session, so the byte is not appended to \<open>auditBuffer\<close> and no buffered
  byte is removed.
\<close>

theorem C7_backspace_keeps_buffer:
  "audit_recive_loop n i (8 # msg) (wt, evs) = audit_recive_loop n (i + 1) msg (wt, evs)
   \<and> auditBuffer (fst (audit ''recive'' [8] wt)) = auditBuffer wt"
  by (simp add: audit_def filterASCII_def)

section \<open>Ping frames\<close>

text \<open>
  C8 does not hold as the specification states it: the payload of a \<open>Ping\<close> frame goes through the
  receive-direction audit before the \<open>switch\<close>, so a \<open>Ping\<close> frame that carries the byte
  \<open>a\<close> changes the session (the byte is appended to \<open>auditBuffer\<close>).
\<close>

theorem C8_ping_payload_is_audited_counterexample:
  "state_of (handleMasterReadEvent demo_env good_conns [Ping demo_env, 97] wt0) \<noteq> wt0"
  by (simp add: dispatch_Ping [OF demo_codes_distinct] good_conns_def state_of_def audit_def
      filterASCII_def wt0_def)

text \<open>
  C8, amended. For a frame whose type byte is \<open>Ping\<close> the dispatch makes exactly one
  write to the master, the one-byte \<open>Pong\<close> frame, and no slave write and no resize;
  the session that comes out is the one the receive-direction audit of the payload
  leaves, so a \<open>Ping\<close> frame without payload changes nothing and does nothing but the
  write; when the write fails the dispatch returns the wrapped error.
\<close>

theorem C8_ping_answers_pong:
  assumes "codes_distinct c"
  shows "master_writes (events_of (handleMasterReadEvent c io (Ping c # payload) wt)) = [[Pong c]]
       \<and> slave_writes (events_of (handleMasterReadEvent c io (Ping c # payload) wt)) = []
       \<and> resizes (events_of (handleMasterReadEvent c io (Ping c # payload) wt)) = []
       \<and> state_of (handleMasterReadEvent c io (Ping c # payload) wt) =
           fst (audit ''recive'' payload wt)
       \<and> state_of (handleMasterReadEvent c io [Ping c] wt) = wt
       \<and> events_of (handleMasterReadEvent c io [Ping c] wt) = [MasterWrite [Pong c]]
       \<and> err_of (handleMasterReadEvent c io (Ping c # payload) wt) =
           (case masterConn_Write io [Pong c] of
              None \<Rightarrow> None
            | Some e \<Rightarrow> Some (Wrapf (Wrapf e ''failed to write to master'')
                               ''failed to return Pong message to master''))"
proof -
  have a: "audit ''recive'' [] wt = (wt, [])"
    by (simp add: audit_def filterASCII_def)
  show ?thesis
    using audit_no_io [of "''recive''" payload wt] a
    by (cases "masterConn_Write io [Pong c]")
       (simp_all add: dispatch_Ping [OF assms] events_of_def state_of_def err_of_def
          master_writes_append slave_writes_append resizes_append)
qed

theorem C8_ping_answers_pong_witness:
  "events_of (handleMasterReadEvent demo_env good_conns [Ping demo_env] wt0) =
      [MasterWrite [Pong demo_env]]
   \<and> state_of (handleMasterReadEvent demo_env good_conns [Ping demo_env] wt0) = wt0
   \<and> master_writes (events_of (handleMasterReadEvent demo_env good_conns [Ping demo_env, 97] wt0))
       = [[Pong demo_env]]
   \<and> err_of (handleMasterReadEvent demo_env good_conns [Ping demo_env, 97] wt0) = None
   \<and> err_of (handleMasterReadEvent demo_env broken_conns [Ping demo_env, 97] wt0) =
      Some (Wrapf (Wrapf (Foreign 1) ''failed to write to master'')
              ''failed to return Pong message to master'')"
proof -
  have g: "masterConn_Write good_conns [Pong demo_env] = None"
    by (simp add: good_conns_def)
  have b: "masterConn_Write broken_conns [Pong demo_env] = Some (Foreign 1)"
    by (simp add: broken_conns_def)
  show ?thesis
    using C8_ping_answers_pong [OF demo_codes_distinct, of good_conns "[97]" wt0]
      C8_ping_answers_pong [OF demo_codes_distinct, of broken_conns "[97]" wt0]
    by (simp add: g b)
qed

section \<open>The pumps\<close>

lemma slave_pump_running:
  "slave_pump c pre wt = (None, wt', evs) \<Longrightarrow>
   slave_pump c (pre @ script) wt =
     (case slave_pump c script wt' of (r, wt2, evs2) \<Rightarrow> (r, wt2, evs @ evs2))"
proof (induction pre arbitrary: wt wt' evs)
  case Nil
  then show ?case by (simp split: prod.split)
next
  case (Cons t pre)
  obtain data rerr io where t: "t = ((data, rerr), io)"
    by (metis prod.exhaust)
  from Cons.prems t have r: "rerr = None"
    by (cases rerr) simp_all
  obtain e1 wt1 evs1 where h: "handleSlaveReadEvent c io data wt = (e1, wt1, evs1)"
    by (metis prod.exhaust)
  from Cons.prems t r h have e: "e1 = None"
    by (cases e1) simp_all
  obtain r2 wt2 evs2 where p: "slave_pump c pre wt1 = (r2, wt2, evs2)"
    by (metis prod.exhaust)
  from Cons.prems t r h e p have eq: "r2 = None" "wt2 = wt'" "evs = evs1 @ evs2"
    by simp_all
  have "slave_pump c (pre @ script) wt1 =
     (case slave_pump c script wt' of (r, w, es) \<Rightarrow> (r, w, evs2 @ es))"
    using Cons.IH [of wt1 wt' evs2] p eq by simp
  then show ?case
    using t r h e eq by (simp split: prod.split)
qed

lemma master_pump_running:
  "master_pump c pre wt = (None, wt', evs) \<Longrightarrow>
   master_pump c (pre @ script) wt =
     (case master_pump c script wt' of (r, wt2, evs2) \<Rightarrow> (r, wt2, evs @ evs2))"
proof (induction pre arbitrary: wt wt' evs)
  case Nil
  then show ?case by (simp split: prod.split)
next
  case (Cons t pre)
  obtain data rerr io where t: "t = ((data, rerr), io)"
    by (metis prod.exhaust)
  from Cons.prems t have r: "rerr = None"
    by (cases rerr) simp_all
  obtain e1 wt1 evs1 where h: "handleMasterReadEvent c io data wt = (e1, wt1, evs1)"
    by (metis prod.exhaust)
  from Cons.prems t r h have e: "e1 = None"
    by (cases e1) simp_all
  obtain r2 wt2 evs2 where p: "master_pump c pre wt1 = (r2, wt2, evs2)"
    by (metis prod.exhaust)
  from Cons.prems t r h e p have eq: "r2 = None" "wt2 = wt'" "evs = evs1 @ evs2"
    by simp_all
  have "master_pump c (pre @ script) wt1 =
     (case master_pump c script wt' of (r, w, es) \<Rightarrow> (r, w, evs2 @ es))"
    using Cons.IH [of wt1 wt' evs2] p eq by simp
  then show ?case
    using t r h e eq by (simp split: prod.split)
qed

text \<open>
  C9. A pump that is still running after the reads of \<open>pre\<close> and then gets a failing
  read, whatever the cause and whatever bytes came with it, ends there: the slave pump
  with \<open>ErrSlaveClosed\<close>, the master pump with \<open>ErrMasterClosed\<close>. The cause is not part
  of the returned value, and the failing turn neither changes the session nor does
  anything to the outside.
\<close>

theorem C9_read_failure_gives_sentinel:
  "(slave_pump c pre wt = (None, wt', evs) \<longrightarrow>
      slave_pump c (pre @ ((data, Some cause), io) # script) wt = (Some ErrSlaveClosed, wt', evs))
   \<and> (master_pump c pre wt = (None, wt', evs) \<longrightarrow>
      master_pump c (pre @ ((data, Some cause), io) # script) wt = (Some ErrMasterClosed, wt', evs))"
  using slave_pump_running [of c pre wt wt' evs "((data, Some cause), io) # script"]
    master_pump_running [of c pre wt wt' evs "((data, Some cause), io) # script"]
  by simp

theorem C9_read_failure_gives_sentinel_witness:
  "slave_pump demo_env [((go_bytes ''ls'', None), good_conns), (([], Some (Foreign 7)), good_conns)]
      wt0 = (Some ErrSlaveClosed, wt0,
        [LogDebug (DebugSend [] (go_bytes ''ls'')), MasterWrite (Output demo_env # go_bytes ''bHM='')])
   \<and> master_pump demo_env [(([Ping demo_env], None), good_conns),
        ((go_bytes ''x'', Some ErrSlaveClosed), good_conns)] wt0 =
      (Some ErrMasterClosed, wt0, [MasterWrite [Pong demo_env]])"
proof -
  have s: "slave_pump demo_env [((go_bytes ''ls'', None), good_conns)] wt0 =
      (None, wt0,
       [LogDebug (DebugSend [] (go_bytes ''ls'')), MasterWrite (Output demo_env # go_bytes ''bHM='')])"
    by (simp add: handleSlaveReadEvent_def audit_def filterASCII_def masterWrite_def
        good_conns_def wt0_def go_bytes_def enc64_def encodeStd_def
        lookup_asciiControlChars_def asciiControlChars_def string_of_byte_def)
  have m: "master_pump demo_env [(([Ping demo_env], None), good_conns)] wt0 =
      (None, wt0, [MasterWrite [Pong demo_env]])"
    by (simp add: dispatch_Ping [OF demo_codes_distinct] audit_def filterASCII_def good_conns_def)
  show ?thesis
    using C9_read_failure_gives_sentinel [of demo_env "[((go_bytes ''ls'', None), good_conns)]" wt0 wt0
               "[LogDebug (DebugSend [] (go_bytes ''ls'')),
                 MasterWrite (Output demo_env # go_bytes ''bHM='')]" "[]" "Foreign 7" good_conns "[]"]
      C9_read_failure_gives_sentinel [of demo_env "[(([Ping demo_env], None), good_conns)]" wt0 wt0
               "[MasterWrite [Pong demo_env]]" "go_bytes ''x''" ErrSlaveClosed good_conns "[]"]
      s m
    by simp
qed

section \<open>The audit comes before the dispatch\<close>

text \<open>
  C10. For every frame with a type byte, whatever that byte is, the session after
  the dispatch is the one that the receive-direction audit of the payload leaves, and
  what the audit logged comes first among the events; the branch adds no log line. So
  the payload \<open>TAB\<close>, \<open>a\<close> sets \<open>waitForAutocomplete\<close> and appends \<open>a\<close> to \<open>auditBuffer\<close> under
  every type byte, also when the type is unknown (the dispatch then returns the
  unknown-type error) and when an \<open>Input\<close> frame is dropped because \<open>permitWrite\<close> is
  false.
\<close>

theorem C10_audit_before_dispatch:
  "state_of (handleMasterReadEvent c io (t # payload) wt) = fst (audit ''recive'' payload wt)
   \<and> (\<exists>ds. events_of (handleMasterReadEvent c io (t # payload) wt) =
              snd (audit ''recive'' payload wt) @ ds \<and> list_all (\<lambda>e. \<not> is_log e) ds)
   \<and> auditBuffer (state_of (handleMasterReadEvent c io [t, 9, 97] wt)) = auditBuffer wt @ [97]
   \<and> waitForAutocomplete (state_of (handleMasterReadEvent c io [t, 9, 97] wt))
   \<and> (t \<noteq> Input c \<and> t \<noteq> Ping c \<and> t \<noteq> ResizeTerminal c \<longrightarrow>
        err_of (handleMasterReadEvent c io (t # payload) wt) = Some (Errorf_unknown_message_type t))
   \<and> (\<not> permitWrite wt \<longrightarrow>
        err_of (handleMasterReadEvent c io (Input c # payload) wt) = None
        \<and> slave_writes (events_of (handleMasterReadEvent c io (Input c # payload) wt)) = [])"
proof -
  have s: "state_of (handleMasterReadEvent c io (t # p) wt) = fst (audit ''recive'' p wt)" for p
    by (cases "audit ''recive'' p wt")
       (simp add: handleMasterReadEvent_def masterWrite_def state_of_def Let_def
          split: option.split sum.split)
  have e: "\<exists>ds. events_of (handleMasterReadEvent c io (t # payload) wt) =
              snd (audit ''recive'' payload wt) @ ds \<and> list_all (\<lambda>e. \<not> is_log e) ds"
    by (cases "audit ''recive'' payload wt")
       (simp add: handleMasterReadEvent_def masterWrite_def events_of_def Let_def
          split: option.split sum.split)
  have a: "audit ''recive'' [9, 97] wt =
      (wt\<lparr>waitForAutocomplete := True, auditBuffer := auditBuffer wt @ [97]\<rparr>,
       [LogDebug (DebugRecive (auditUser wt) (asciiToString [9, 97])), LogDebug (DebugByte 97)])"
    by (simp add: audit_def filterASCII_def)
  have u: "t \<noteq> Input c \<and> t \<noteq> Ping c \<and> t \<noteq> ResizeTerminal c \<longrightarrow>
        err_of (handleMasterReadEvent c io (t # payload) wt) = Some (Errorf_unknown_message_type t)"
    by (simp add: dispatch_unknown err_of_def)
  have i: "\<not> permitWrite wt \<longrightarrow>
        err_of (handleMasterReadEvent c io (Input c # payload) wt) = None
        \<and> slave_writes (events_of (handleMasterReadEvent c io (Input c # payload) wt)) = []"
    using audit_no_io [of "''recive''" payload wt]
    by (simp add: dispatch_Input err_of_def events_of_def)
  show ?thesis
    using s [of payload] s [of "[9, 97]"] e u i by (simp add: a)
qed

theorem C10_audit_before_dispatch_witness:
  "err_of (handleMasterReadEvent demo_env good_conns (48 # [9, 97]) wt0) =
      Some (Errorf_unknown_message_type 48)
   \<and> state_of (handleMasterReadEvent demo_env good_conns (48 # [9, 97]) wt0) =
      wt0\<lparr>waitForAutocomplete := True, auditBuffer := [97]\<rparr>
   \<and> err_of (handleMasterReadEvent demo_env good_conns (Input demo_env # [9, 97]) wt0) = None
   \<and> slave_writes (events_of (handleMasterReadEvent demo_env good_conns
        (Input demo_env # [9, 97]) wt0)) = []
   \<and> state_of (handleMasterReadEvent demo_env good_conns (Input demo_env # [9, 97]) wt0) =
      wt0\<lparr>waitForAutocomplete := True, auditBuffer := [97]\<rparr>
   \<and> state_of (handleMasterReadEvent demo_env good_conns (Ping demo_env # [9, 97]) wt0) =
      wt0\<lparr>waitForAutocomplete := True, auditBuffer := [97]\<rparr>"
proof -
  have a: "fst (audit ''recive'' [9, 97] wt0) =
      wt0\<lparr>waitForAutocomplete := True, auditBuffer := [97]\<rparr>"
    by (simp add: audit_def filterASCII_def wt0_def)
  have d: "(48::byte) \<noteq> Input demo_env \<and> 48 \<noteq> Ping demo_env \<and> 48 \<noteq> ResizeTerminal demo_env"
    by (simp add: demo_env_def)
  have p: "\<not> permitWrite wt0"
    by (simp add: wt0_def)
  show ?thesis
    using C10_audit_before_dispatch [of demo_env good_conns 48 "[9, 97]" wt0]
      C10_audit_before_dispatch [of demo_env good_conns "Input demo_env" "[9, 97]" wt0]
      C10_audit_before_dispatch [of demo_env good_conns "Ping demo_env" "[9, 97]" wt0]
      d p
    by (simp add: a)
qed

end
